theory Spec2Isabelle
  imports Complex_Main
begin


section \<open>Numbers, rounding and random draws\<close>

text \<open>
  The loader computes with Python floats. They are idealised here as real numbers: every
  arithmetic operation is exact, and \<open>round(x, 2)\<close> rounds the exact value to the nearest
  multiple of \<open>1/100\<close>, a tie going to the even neighbour as Python does.

  Python's global random generator is a source of numbers \<open>random()\<close> in the unit
  interval, consumed one after the other. It is modelled as a stream \<open>u\<close> of draws and
  a position \<open>n\<close> that each call advances; \<open>random.uniform(a, b)\<close> is
  \<open>a + (b - a) * random()\<close>.
\<close>

type_synonym draws = "nat \<Rightarrow> real"

definition valid_draws :: "draws \<Rightarrow> bool" where
  "valid_draws u \<longleftrightarrow> (\<forall>n. 0 \<le> u n \<and> u n \<le> 1)"

definition random_uniform :: "draws \<Rightarrow> real \<Rightarrow> real \<Rightarrow> nat \<Rightarrow> real \<times> nat" where
  "random_uniform u a b n = (a + (b - a) * u n, Suc n)"

definition round_half_even :: "real \<Rightarrow> int" where
  "round_half_even x =
     (let f = \<lfloor>x\<rfloor>; d = x - of_int f
      in if d < 1 / 2 then f else if 1 / 2 < d then f + 1 else if even f then f else f + 1)"

definition round_py :: "real \<Rightarrow> nat \<Rightarrow> real" where
  "round_py x ndigits = of_int (round_half_even (x * 10 ^ ndigits)) / 10 ^ ndigits"

datatype error = KeyError string | ValueError | ZeroDivisionError | IOError | DatabaseError

definition truediv :: "real \<Rightarrow> real \<Rightarrow> error + real" where
  "truediv a b = (if b = 0 then Inl ZeroDivisionError else Inr (a / b))"

definition pow_py :: "real \<Rightarrow> int \<Rightarrow> error + real" where
  "pow_py x k =
     (if 0 \<le> k then Inr (x ^ nat k)
      else if x = 0 then Inl ZeroDivisionError
      else Inr (1 / x ^ nat (- k)))"

definition getitem :: "(string \<times> 'v) list \<Rightarrow> string \<Rightarrow> error + 'v" where
  "getitem d k = (case map_of d k of None \<Rightarrow> Inl (KeyError k) | Some v \<Rightarrow> Inr v)"

definition range_py :: "int \<Rightarrow> int \<Rightarrow> int list" where
  "range_py a b = [a .. b - 1]"

text \<open>
  A \<open>for\<close> loop whose body may raise: the state after each iteration is passed to the
  next one, and the first error ends the loop.
\<close>

fun for_each :: "('a \<Rightarrow> 's \<Rightarrow> error + 's) \<Rightarrow> 'a list \<Rightarrow> 's \<Rightarrow> error + 's" where
  "for_each body [] s = Inr s"
| "for_each body (x # xs) s =
     (case body x s of Inl e \<Rightarrow> Inl e | Inr s' \<Rightarrow> for_each body xs s')"

section \<open>Rows of the five tables\<close>

record coded =
  country_code :: string

record country = coded +
  country_name :: string
  region :: string
  income_group :: string
  population_2023 :: "real option"

record keyed = coded +
  year :: int

record gdp_row = keyed +
  gdp_per_capita_current_usd :: real
  gdp_total_current_usd :: "real option"
  gdp_growth_annual_pct :: real

record inequality_row = keyed +
  gini_coefficient :: real
  income_share_lowest_20pct :: real
  income_share_highest_20pct :: real
  palma_ratio :: real

record poverty_row = keyed +
  poverty_headcount_215_pct :: real
  poverty_headcount_365_pct :: real
  poverty_headcount_685_pct :: real
  poverty_gap :: "real option"

record trade_row = keyed +
  trade_pct_gdp :: real
  secondary_enrollment_rate :: real
  tertiary_enrollment_rate :: real
  government_expenditure_education_pct :: real

section \<open>Country catalog\<close>

text \<open>
  \<open>countries_data\<close> of \<open>load_country_metadata\<close>: four columns, turned into rows by
  the data frame constructor, which raises \<open>ValueError\<close> when the columns differ in
  length. The column \<open>population_2023\<close> is added with the value \<open>None\<close>.
\<close>

definition country_code_column :: "string list" where
  "country_code_column =
     [''USA'', ''GBR'', ''DEU'', ''FRA'', ''JPN'', ''CHN'', ''IND'', ''BRA'', ''ZAF'',
      ''NGA'', ''KEN'', ''ETH'', ''MEX'', ''ARG'', ''CHL'', ''POL'', ''CZE'', ''HUN'',
      ''RUS'', ''TUR'', ''IDN'', ''THA'', ''VNM'', ''PHL'', ''EGY'', ''MAR'', ''GHA'',
      ''TZA'', ''UGA'', ''RWA'', ''SWE'', ''NOR'', ''DNK'', ''FIN'', ''NLD'', ''BEL'',
      ''AUT'', ''CHE'', ''ITA'', ''ESP'', ''PRT'', ''GRC'', ''CAN'', ''AUS'', ''NZL'',
      ''KOR'', ''SGP'', ''MYS'']"

definition country_name_column :: "string list" where
  "country_name_column =
     [''United States'', ''United Kingdom'', ''Germany'', ''France'', ''Japan'', ''China'',
      ''India'', ''Brazil'', ''South Africa'', ''Nigeria'', ''Kenya'', ''Ethiopia'',
      ''Mexico'', ''Argentina'', ''Chile'', ''Poland'', ''Czech Republic'', ''Hungary'',
      ''Russia'', ''Turkey'', ''Indonesia'', ''Thailand'', ''Vietnam'', ''Philippines'',
      ''Egypt'', ''Morocco'', ''Ghana'', ''Tanzania'', ''Uganda'', ''Rwanda'', ''Sweden'',
      ''Norway'', ''Denmark'', ''Finland'', ''Netherlands'', ''Belgium'', ''Austria'',
      ''Switzerland'', ''Italy'', ''Spain'', ''Portugal'', ''Greece'', ''Canada'',
      ''Australia'', ''New Zealand'', ''South Korea'', ''Singapore'', ''Malaysia'']"

definition region_column :: "string list" where
  "region_column =
     [''North America'', ''Europe & Central Asia'', ''Europe & Central Asia'',
      ''Europe & Central Asia'', ''East Asia & Pacific'', ''East Asia & Pacific'',
      ''South Asia'', ''Latin America & Caribbean'', ''Sub-Saharan Africa'',
      ''Sub-Saharan Africa'', ''Sub-Saharan Africa'', ''Sub-Saharan Africa'',
      ''Latin America & Caribbean'', ''Latin America & Caribbean'',
      ''Latin America & Caribbean'', ''Europe & Central Asia'', ''Europe & Central Asia'',
      ''Europe & Central Asia'', ''Europe & Central Asia'', ''Europe & Central Asia'',
      ''East Asia & Pacific'', ''East Asia & Pacific'', ''East Asia & Pacific'',
      ''East Asia & Pacific'', ''Middle East & North Africa'',
      ''Middle East & North Africa'', ''Sub-Saharan Africa'', ''Sub-Saharan Africa'',
      ''Sub-Saharan Africa'', ''Sub-Saharan Africa'', ''Europe & Central Asia'',
      ''Europe & Central Asia'', ''Europe & Central Asia'', ''Europe & Central Asia'',
      ''Europe & Central Asia'', ''Europe & Central Asia'', ''Europe & Central Asia'',
      ''Europe & Central Asia'', ''Europe & Central Asia'', ''Europe & Central Asia'',
      ''Europe & Central Asia'', ''Europe & Central Asia'', ''North America'',
      ''East Asia & Pacific'', ''East Asia & Pacific'', ''East Asia & Pacific'',
      ''East Asia & Pacific'', ''East Asia & Pacific'']"

definition income_group_column :: "string list" where
  "income_group_column =
     [''High income'', ''High income'', ''High income'', ''High income'', ''High income'',
      ''Upper middle income'', ''Lower middle income'', ''Upper middle income'',
      ''Upper middle income'', ''Lower middle income'', ''Lower middle income'',
      ''Low income'', ''Upper middle income'', ''Upper middle income'', ''High income'',
      ''High income'', ''High income'', ''High income'', ''Upper middle income'',
      ''Upper middle income'', ''Upper middle income'', ''Upper middle income'',
      ''Lower middle income'', ''Lower middle income'', ''Lower middle income'',
      ''Lower middle income'', ''Lower middle income'', ''Lower middle income'',
      ''Low income'', ''Low income'', ''High income'', ''High income'', ''High income'',
      ''High income'', ''High income'', ''High income'', ''High income'', ''High income'',
      ''High income'', ''High income'', ''High income'', ''High income'', ''High income'',
      ''High income'', ''High income'', ''High income'', ''High income'',
      ''Upper middle income'']"

definition data_frame ::
  "string list \<Rightarrow> string list \<Rightarrow> string list \<Rightarrow> string list \<Rightarrow> error + country list" where
  "data_frame codes names regions groups =
     (if length names = length codes \<and> length regions = length codes
         \<and> length groups = length codes
      then Inr (map (\<lambda>(c, nm, r, g).
                  \<lparr>country_code = c, country_name = nm, region = r, income_group = g,
                   population_2023 = None\<rparr>)
                (zip codes (zip names (zip regions groups))))
      else Inl ValueError)"

definition countries_frame :: "error + country list" where
  "countries_frame =
     data_frame country_code_column country_name_column region_column income_group_column"

section \<open>GDP generator\<close>

definition gdp_ranges :: "(string \<times> real \<times> real) list" where
  "gdp_ranges =
     [(''High income'', 40000, 80000),
      (''Upper middle income'', 8000, 20000),
      (''Lower middle income'', 2000, 8000),
      (''Low income'', 500, 2000)]"

text \<open>The body of the loop over the years, for one country: one appended row.\<close>

definition gdp_year ::
  "draws \<Rightarrow> string \<Rightarrow> string \<Rightarrow> real \<Rightarrow> int \<Rightarrow> gdp_row list \<times> nat
     \<Rightarrow> error + gdp_row list \<times> nat" where
  "gdp_year u code ig base_gdp yr s =
     (let (data, n) = s;
          (growth, n) =
            (if ig = ''High income'' then random_uniform u 1 3 n
             else if ig = ''Upper middle income'' then random_uniform u 3 7 n
             else if ig = ''Lower middle income'' then random_uniform u 4 8 n
             else random_uniform u 3 6 n);
          (growth, n) = (if yr = 2020 then random_uniform u (- 5) (- 2) n else (growth, n));
          years_since_base = yr - 2015
      in case pow_py (1 + growth / 100) years_since_base of
           Inl e \<Rightarrow> Inl e
         | Inr p \<Rightarrow>
             Inr (data @ [\<lparr>country_code = code, year = yr,
                            gdp_per_capita_current_usd = round_py (base_gdp * p) 2,
                            gdp_total_current_usd = None,
                            gdp_growth_annual_pct = round_py growth 2\<rparr>], n))"

text \<open>The body of the loop over the countries.\<close>

definition gdp_country ::
  "draws \<Rightarrow> country \<Rightarrow> gdp_row list \<times> nat \<Rightarrow> error + gdp_row list \<times> nat" where
  "gdp_country u c s =
     (let (data, n) = s
      in case getitem gdp_ranges (income_group c) of
           Inl e \<Rightarrow> Inl e
         | Inr (min_gdp, max_gdp) \<Rightarrow>
             (let (base_gdp, n) = random_uniform u min_gdp max_gdp n
              in for_each (gdp_year u (country_code c) (income_group c) base_gdp)
                   (range_py 2015 2024) (data, n)))"

definition gdp_data :: "draws \<Rightarrow> country list \<Rightarrow> nat \<Rightarrow> error + gdp_row list \<times> nat" where
  "gdp_data u countries n = for_each (gdp_country u) countries ([], n)"

section \<open>Inequality generator\<close>

definition gini_ranges :: "(string \<times> real \<times> real) list" where
  "gini_ranges =
     [(''Latin America & Caribbean'', 45, 55),
      (''Sub-Saharan Africa'', 40, 65),
      (''Middle East & North Africa'', 35, 42),
      (''South Asia'', 32, 38),
      (''East Asia & Pacific'', 30, 45),
      (''Europe & Central Asia'', 25, 38),
      (''North America'', 38, 42)]"

text \<open>The survey years, \<open>years\<close> in both \<open>load_inequality_data\<close> and \<open>load_poverty_data\<close>.\<close>

definition years :: "int list" where
  "years = [2015, 2017, 2019, 2021, 2023]"

definition inequality_year ::
  "draws \<Rightarrow> string \<Rightarrow> real \<Rightarrow> int \<Rightarrow> inequality_row list \<times> nat
     \<Rightarrow> error + inequality_row list \<times> nat" where
  "inequality_year u code base_gini yr s =
     (let (data, n) = s;
          (variation, n) = random_uniform u (- 3) 3 n;
          gini = base_gini + variation;
          gini = max 20 (min 70 gini);
          (lowest_20, n) = random_uniform u 4 9 n;
          (highest_20, n) = random_uniform u 40 55 n
      in case truediv highest_20 (lowest_20 * 2) of
           Inl e \<Rightarrow> Inl e
         | Inr q \<Rightarrow>
             Inr (data @ [\<lparr>country_code = code, year = yr,
                            gini_coefficient = round_py gini 2,
                            income_share_lowest_20pct = round_py lowest_20 2,
                            income_share_highest_20pct = round_py highest_20 2,
                            palma_ratio = round_py q 2\<rparr>], n))"

definition inequality_country ::
  "draws \<Rightarrow> country \<Rightarrow> inequality_row list \<times> nat \<Rightarrow> error + inequality_row list \<times> nat" where
  "inequality_country u c s =
     (let (data, n) = s
      in case getitem gini_ranges (region c) of
           Inl e \<Rightarrow> Inl e
         | Inr (min_gini, max_gini) \<Rightarrow>
             (let (base_gini, n) = random_uniform u min_gini max_gini n
              in for_each (inequality_year u (country_code c) base_gini) years (data, n)))"

definition inequality_data ::
  "draws \<Rightarrow> country list \<Rightarrow> nat \<Rightarrow> error + inequality_row list \<times> nat" where
  "inequality_data u countries n = for_each (inequality_country u) countries ([], n)"

text \<open>
  What is stored in an inequality row, in terms of the draws: the Gini coefficient after
  clamping, and the two income shares sampled at consecutive positions \<open>k\<close> and
  \<open>k + 1\<close> of the stream, from which the Palma ratio of the same row is computed.
\<close>

definition inequality_row_ok :: "draws \<Rightarrow> inequality_row \<Rightarrow> bool" where
  "inequality_row_ok u r \<longleftrightarrow>
     20 \<le> gini_coefficient r \<and> gini_coefficient r \<le> 70 \<and>
     (\<exists>k lowest_20 highest_20.
        lowest_20 = fst (random_uniform u 4 9 k) \<and>
        highest_20 = fst (random_uniform u 40 55 (Suc k)) \<and>
        2 * lowest_20 \<noteq> 0 \<and>
        income_share_lowest_20pct r = round_py lowest_20 2 \<and>
        income_share_highest_20pct r = round_py highest_20 2 \<and>
        palma_ratio r = round_py (highest_20 / (2 * lowest_20)) 2)"

section \<open>Poverty generator\<close>

text \<open>The loop over the survey years draws nothing and cannot raise: it is a fold.\<close>

definition poverty_year ::
  "string \<Rightarrow> real \<Rightarrow> real \<Rightarrow> real \<Rightarrow> int \<Rightarrow> poverty_row list \<Rightarrow> poverty_row list" where
  "poverty_year code base_215 base_365 base_685 yr data =
     (let years_since_2015 = real_of_int (yr - 2015) / 8;
          reduction_factor = 1 - years_since_2015 * 0.15
      in data @ [\<lparr>country_code = code, year = yr,
                   poverty_headcount_215_pct = round_py (base_215 * reduction_factor) 2,
                   poverty_headcount_365_pct = round_py (base_365 * reduction_factor) 2,
                   poverty_headcount_685_pct = round_py (base_685 * reduction_factor) 2,
                   poverty_gap = None\<rparr>])"

definition poverty_bases :: "draws \<Rightarrow> string \<Rightarrow> nat \<Rightarrow> (real \<times> real \<times> real) \<times> nat" where
  "poverty_bases u ig n =
     (if ig = ''Low income'' then
        (let (base_215, n) = random_uniform u 40 70 n;
             (base_365, n) = random_uniform u 60 85 n;
             (base_685, n) = random_uniform u 75 95 n
         in ((base_215, base_365, base_685), n))
      else if ig = ''Lower middle income'' then
        (let (base_215, n) = random_uniform u 10 40 n;
             (base_365, n) = random_uniform u 25 60 n;
             (base_685, n) = random_uniform u 50 80 n
         in ((base_215, base_365, base_685), n))
      else
        (let (base_215, n) = random_uniform u 1 15 n;
             (base_365, n) = random_uniform u 5 30 n;
             (base_685, n) = random_uniform u 15 50 n
         in ((base_215, base_365, base_685), n)))"

definition poverty_country ::
  "draws \<Rightarrow> country \<Rightarrow> poverty_row list \<times> nat \<Rightarrow> poverty_row list \<times> nat" where
  "poverty_country u c s =
     (let (data, n) = s
      in if income_group c \<in> set [''Low income'', ''Lower middle income'', ''Upper middle income'']
         then (let ((base_215, base_365, base_685), n) = poverty_bases u (income_group c) n
               in (fold (poverty_year (country_code c) base_215 base_365 base_685) years data, n))
         else (data, n))"

definition poverty_data :: "draws \<Rightarrow> country list \<Rightarrow> nat \<Rightarrow> poverty_row list \<times> nat" where
  "poverty_data u countries n = fold (poverty_country u) countries ([], n)"

section \<open>Trade and education generator\<close>

definition trade_year ::
  "draws \<Rightarrow> string \<Rightarrow> real \<Rightarrow> real \<Rightarrow> real \<Rightarrow> real \<Rightarrow> int \<Rightarrow> trade_row list \<times> nat
     \<Rightarrow> trade_row list \<times> nat" where
  "trade_year u code base_trade sec_enrollment ter_enrollment gov_edu_exp yr s =
     (let (data, n) = s;
          years_since_2015 = real_of_int (yr - 2015);
          sec_improvement = sec_enrollment + years_since_2015 * 0.5;
          ter_improvement = ter_enrollment + years_since_2015 * 0.3;
          (trade_noise, n) = random_uniform u (- 10) 10 n;
          (edu_noise, n) = random_uniform u (- 0.5) 0.5 n
      in (data @ [\<lparr>country_code = code, year = yr,
                    trade_pct_gdp = round_py (base_trade + trade_noise) 2,
                    secondary_enrollment_rate = round_py (min 105 sec_improvement) 2,
                    tertiary_enrollment_rate = round_py ter_improvement 2,
                    government_expenditure_education_pct =
                      round_py (gov_edu_exp + edu_noise) 2\<rparr>], n))"

definition trade_bases :: "draws \<Rightarrow> string \<Rightarrow> nat \<Rightarrow> (real \<times> real \<times> real) \<times> nat" where
  "trade_bases u ig n =
     (if ig = ''High income'' then
        (let (sec_enrollment, n) = random_uniform u 95 105 n;
             (ter_enrollment, n) = random_uniform u 60 90 n;
             (gov_edu_exp, n) = random_uniform u 4 6 n
         in ((sec_enrollment, ter_enrollment, gov_edu_exp), n))
      else if ig = ''Upper middle income'' then
        (let (sec_enrollment, n) = random_uniform u 75 95 n;
             (ter_enrollment, n) = random_uniform u 30 60 n;
             (gov_edu_exp, n) = random_uniform u 3.5 5.5 n
         in ((sec_enrollment, ter_enrollment, gov_edu_exp), n))
      else if ig = ''Lower middle income'' then
        (let (sec_enrollment, n) = random_uniform u 50 80 n;
             (ter_enrollment, n) = random_uniform u 15 40 n;
             (gov_edu_exp, n) = random_uniform u 3 5 n
         in ((sec_enrollment, ter_enrollment, gov_edu_exp), n))
      else
        (let (sec_enrollment, n) = random_uniform u 30 60 n;
             (ter_enrollment, n) = random_uniform u 5 20 n;
             (gov_edu_exp, n) = random_uniform u 2 4 n
         in ((sec_enrollment, ter_enrollment, gov_edu_exp), n)))"

definition trade_country ::
  "draws \<Rightarrow> country \<Rightarrow> trade_row list \<times> nat \<Rightarrow> trade_row list \<times> nat" where
  "trade_country u c s =
     (let (data, n) = s;
          (base_trade, n) = random_uniform u 40 150 n;
          ((sec_enrollment, ter_enrollment, gov_edu_exp), n) = trade_bases u (income_group c) n
      in fold (trade_year u (country_code c) base_trade sec_enrollment ter_enrollment
                 gov_edu_exp)
           (range_py 2015 2024) (data, n))"

definition trade_data :: "draws \<Rightarrow> country list \<Rightarrow> nat \<Rightarrow> trade_row list \<times> nat" where
  "trade_data u countries n = fold (trade_country u) countries ([], n)"

section \<open>Database, console and the loaders\<close>

text \<open>
  The database maps a table name to the rows stored under it. What lies outside the
  repository is a parameter of the run: the contents of \<open>schema.sql\<close> (\<open>None\<close> when
  the file cannot be opened or read), what the database engine does with that script,
  and whether connecting, writing a table or counting its rows fails. A failing script
  or write may leave the database in any state, so the state it leaves is part of the
  parameter.
\<close>

datatype row =
    CountryRow country
  | GdpRow gdp_row
  | InequalityRow inequality_row
  | PovertyRow poverty_row
  | TradeRow trade_row

type_synonym database = "string \<rightharpoonup> row list"

record env =
  connect_fault :: "error option"
  schema_file :: "string option"
  executescript :: "string \<Rightarrow> database \<Rightarrow> error option \<times> database"
  write_fault :: "string \<Rightarrow> database \<Rightarrow> (error \<times> database) option"
  query_fault :: "string \<Rightarrow> error option"

text \<open>
  What is printed, without the decorative glyphs and rules: a line of text, the number
  of rows a loader reports, the number of rows counted in a table, the error line and
  the traceback of the handler.
\<close>

datatype event =
    Print string
  | Loaded string nat
  | RowCount string nat
  | ErrorLine error
  | Traceback error

record session =
  tables :: database
  console :: "event list"
  rng :: nat
  connected :: bool

type_synonym 'a stage = "session \<Rightarrow> (error + 'a) \<times> session"

definition print :: "event \<Rightarrow> session \<Rightarrow> session" where
  "print e s = s\<lparr>console := console s @ [e]\<rparr>"

text \<open>Sequencing of two statements: an exception raised by the first skips the second.\<close>

definition then_do :: "'a stage \<Rightarrow> ('a \<Rightarrow> 'b stage) \<Rightarrow> 'b stage" where
  "then_do f g s = (case f s of (Inl e, s') \<Rightarrow> (Inl e, s') | (Inr x, s') \<Rightarrow> g x s')"

fun for_stage :: "('a \<Rightarrow> unit stage) \<Rightarrow> 'a list \<Rightarrow> unit stage" where
  "for_stage body [] s = (Inr (), s)"
| "for_stage body (x # xs) s = then_do (body x) (\<lambda>_. for_stage body xs) s"

text \<open>\<open>df.to_sql(name, conn, if_exists='replace', index=False)\<close>\<close>

definition to_sql :: "env \<Rightarrow> string \<Rightarrow> row list \<Rightarrow> unit stage" where
  "to_sql w name df s =
     (case write_fault w name (tables s) of
        Some (e, db) \<Rightarrow> (Inl e, s\<lparr>tables := db\<rparr>)
      | None \<Rightarrow> (Inr (), s\<lparr>tables := (tables s)(name \<mapsto> df)\<rparr>))"

definition load_country_metadata :: "env \<Rightarrow> country list stage" where
  "load_country_metadata w s =
     (let s = print (Print ''Loading country metadata...'') s
      in case countries_frame of
           Inl e \<Rightarrow> (Inl e, s)
         | Inr df \<Rightarrow>
             then_do (to_sql w ''country_metadata'' (map CountryRow df))
               (\<lambda>_ s. (Inr df, print (Loaded ''countries'' (length df)) s)) s)"

text \<open>
  The generators run on the draws from the session's position on. When a generator
  raises, the position it had reached is not kept: nothing draws after it.
\<close>

definition load_gdp_data :: "env \<Rightarrow> draws \<Rightarrow> country list \<Rightarrow> unit stage" where
  "load_gdp_data w u countries s =
     (let s = print (Print ''Creating GDP data...'') s
      in case gdp_data u countries (rng s) of
           Inl e \<Rightarrow> (Inl e, s)
         | Inr (data, n) \<Rightarrow>
             then_do (to_sql w ''gdp_data'' (map GdpRow data))
               (\<lambda>_ s. (Inr (), print (Loaded ''GDP records'' (length data)) s))
               (s\<lparr>rng := n\<rparr>))"

definition load_inequality_data :: "env \<Rightarrow> draws \<Rightarrow> country list \<Rightarrow> unit stage" where
  "load_inequality_data w u countries s =
     (let s = print (Print ''Creating inequality data...'') s
      in case inequality_data u countries (rng s) of
           Inl e \<Rightarrow> (Inl e, s)
         | Inr (data, n) \<Rightarrow>
             then_do (to_sql w ''inequality_metrics'' (map InequalityRow data))
               (\<lambda>_ s. (Inr (), print (Loaded ''inequality records'' (length data)) s))
               (s\<lparr>rng := n\<rparr>))"

definition load_poverty_data :: "env \<Rightarrow> draws \<Rightarrow> country list \<Rightarrow> unit stage" where
  "load_poverty_data w u countries s =
     (let s = print (Print ''Creating poverty data...'') s;
          (data, n) = poverty_data u countries (rng s)
      in then_do (to_sql w ''poverty_indicators'' (map PovertyRow data))
           (\<lambda>_ s. (Inr (), print (Loaded ''poverty records'' (length data)) s))
           (s\<lparr>rng := n\<rparr>))"

definition load_trade_education :: "env \<Rightarrow> draws \<Rightarrow> country list \<Rightarrow> unit stage" where
  "load_trade_education w u countries s =
     (let s = print (Print ''Creating trade and education data...'') s;
          (data, n) = trade_data u countries (rng s)
      in then_do (to_sql w ''trade_education'' (map TradeRow data))
           (\<lambda>_ s. (Inr (), print (Loaded ''trade/education records'' (length data)) s))
           (s\<lparr>rng := n\<rparr>))"

section \<open>The entry point\<close>

definition create_schema :: "env \<Rightarrow> unit stage" where
  "create_schema w s =
     (let s = print (Print ''Creating database schema...'') s
      in case schema_file w of
           None \<Rightarrow> (Inl IOError, s)
         | Some script \<Rightarrow>
             (case executescript w script (tables s) of
                (Some e, db) \<Rightarrow> (Inl e, s\<lparr>tables := db\<rparr>)
              | (None, db) \<Rightarrow> (Inr (), print (Print ''Schema created'') (s\<lparr>tables := db\<rparr>))))"

definition table_names :: "string list" where
  "table_names =
     [''country_metadata'', ''gdp_data'', ''inequality_metrics'', ''poverty_indicators'',
      ''trade_education'']"

text \<open>\<open>SELECT COUNT(*) FROM table\<close>, which fails on a table that does not exist.\<close>

definition report_table :: "env \<Rightarrow> string \<Rightarrow> unit stage" where
  "report_table w table s =
     (case query_fault w table of
        Some e \<Rightarrow> (Inl e, s)
      | None \<Rightarrow>
          (case tables s table of
             None \<Rightarrow> (Inl DatabaseError, s)
           | Some rows \<Rightarrow> (Inr (), print (RowCount table (length rows)) s)))"

text \<open>The \<open>try\<close> block of \<open>main\<close>.\<close>

definition main_try :: "env \<Rightarrow> draws \<Rightarrow> unit stage" where
  "main_try w u =
     then_do (create_schema w) (\<lambda>_.
     then_do (load_country_metadata w) (\<lambda>countries.
     then_do (load_gdp_data w u countries) (\<lambda>_.
     then_do (load_inequality_data w u countries) (\<lambda>_.
     then_do (load_poverty_data w u countries) (\<lambda>_.
     then_do (load_trade_education w u countries) (\<lambda>_.
     then_do (\<lambda>s. (Inr (), print (Print ''DATA LOADING SUMMARY'') s)) (\<lambda>_.
     then_do (for_stage (report_table w) table_names) (\<lambda>_ s.
       (Inr (), print (Print ''NEXT STEPS'')
                  (print (Print ''Database successfully created: global_inequality.db'') s))
     ))))))))"

text \<open>
  \<open>main\<close>: print the banner, connect, run the \<open>try\<close> block, handle any exception
  by printing it and its traceback, and close the connection in the \<open>finally\<close> block.
  The connection is made before the \<open>try\<close>: when connecting fails the exception leaves
  \<open>main\<close>, which is the only way for \<open>main\<close> to raise, and there is no connection to
  close. The draws of a run start at position 0 of its stream.
\<close>

definition startup :: "database \<Rightarrow> session" where
  "startup db =
     print (Print ''BASIC GLOBAL INEQUALITY DATABASE LOADER'')
       \<lparr>tables = db, console = [], rng = 0, connected = False\<rparr>"

definition connect :: "database \<Rightarrow> session" where
  "connect db = (startup db)\<lparr>connected := True\<rparr>"

definition except_handler :: "error + unit \<Rightarrow> session \<Rightarrow> session" where
  "except_handler r s =
     (case r of
        Inl e \<Rightarrow> print (Traceback e) (print (ErrorLine e) s)
      | Inr _ \<Rightarrow> s)"

definition main :: "env \<Rightarrow> draws \<Rightarrow> database \<Rightarrow> error option \<times> session" where
  "main w u db =
     (case connect_fault w of
        Some e \<Rightarrow> (Some e, startup db)
      | None \<Rightarrow>
          (let (r, s) = main_try w u (connect db);
               s = except_handler r s
           in (None, s\<lparr>connected := False\<rparr>)))"

text \<open>The number of rows of a table, \<open>None\<close> when the table does not exist.\<close>

definition row_count :: "database \<Rightarrow> string \<Rightarrow> nat option" where
  "row_count db table = map_option length (db table)"

section \<open>What the GDP rows hold\<close>





section \<open>What the poverty rows hold\<close>

text \<open>
  The decay factor of a survey year, the row built from the three base rates of a
  country, the income groups that get poverty rows, the rows of one country whose bases
  are drawn from position \<open>n\<close> on, and what is shown of the rows of a list of countries:
  each belongs to a country of those groups, and the rates of one country decrease from
  one survey year to the next.
\<close>

definition reduction_factor :: "int \<Rightarrow> real" where
  "reduction_factor yr = 1 - real_of_int (yr - 2015) / 8 * 0.15"

definition poverty_row_of :: "string \<Rightarrow> real \<Rightarrow> real \<Rightarrow> real \<Rightarrow> int \<Rightarrow> poverty_row" where
  "poverty_row_of code base_215 base_365 base_685 yr =
     \<lparr>country_code = code, year = yr,
      poverty_headcount_215_pct = round_py (base_215 * reduction_factor yr) 2,
      poverty_headcount_365_pct = round_py (base_365 * reduction_factor yr) 2,
      poverty_headcount_685_pct = round_py (base_685 * reduction_factor yr) 2,
      poverty_gap = None\<rparr>"

definition poverty_eligible :: "string \<Rightarrow> bool" where
  "poverty_eligible ig \<longleftrightarrow>
     ig \<in> set [''Low income'', ''Lower middle income'', ''Upper middle income'']"

definition poverty_block :: "draws \<Rightarrow> country \<Rightarrow> nat \<Rightarrow> poverty_row list" where
  "poverty_block u c n =
     (if income_group c \<in> set [''Low income'', ''Lower middle income'', ''Upper middle income'']
      then (let ((base_215, base_365, base_685), _) = poverty_bases u (income_group c) n
            in map (poverty_row_of (country_code c) base_215 base_365 base_685) years)
      else [])"

definition poverty_rows_ok :: "country list \<Rightarrow> poverty_row list \<Rightarrow> bool" where
  "poverty_rows_ok cs rows \<longleftrightarrow>
     (\<forall>r \<in> set rows. \<exists>c \<in> set cs. country_code r = country_code c \<and>
        poverty_eligible (income_group c)) \<and>
     (\<forall>r1 \<in> set rows. \<forall>r2 \<in> set rows.
        country_code r1 = country_code r2 \<and> year r1 < year r2 \<longrightarrow>
          poverty_headcount_215_pct r2 < poverty_headcount_215_pct r1 \<and>
          poverty_headcount_365_pct r2 < poverty_headcount_365_pct r1 \<and>
          poverty_headcount_685_pct r2 < poverty_headcount_685_pct r1)"

section \<open>What the trade and education rows hold\<close>

text \<open>
  The row of a year, built from the four base values of a country and the position
  \<open>k\<close> of the first of its two noise draws; the position of that draw for a country
  whose first base is drawn at position \<open>n\<close>; and the rows of one such country.
\<close>

definition trade_row_of ::
  "draws \<Rightarrow> string \<Rightarrow> real \<Rightarrow> real \<Rightarrow> real \<Rightarrow> real \<Rightarrow> int \<Rightarrow> nat \<Rightarrow> trade_row" where
  "trade_row_of u code base_trade sec_enrollment ter_enrollment gov_edu_exp yr k =
     \<lparr>country_code = code, year = yr,
      trade_pct_gdp = round_py (base_trade + fst (random_uniform u (- 10) 10 k)) 2,
      secondary_enrollment_rate =
        round_py (min 105 (sec_enrollment + real_of_int (yr - 2015) * 0.5)) 2,
      tertiary_enrollment_rate = round_py (ter_enrollment + real_of_int (yr - 2015) * 0.3) 2,
      government_expenditure_education_pct =
        round_py (gov_edu_exp + fst (random_uniform u (- 0.5) 0.5 (Suc k))) 2\<rparr>"

definition noise_position :: "nat \<Rightarrow> int \<Rightarrow> nat" where
  "noise_position n yr = n + 4 + 2 * nat (yr - 2015)"

definition trade_block :: "draws \<Rightarrow> country \<Rightarrow> nat \<Rightarrow> trade_row list" where
  "trade_block u c n =
     (let (base_trade, n1) = random_uniform u 40 150 n;
          ((sec_enrollment, ter_enrollment, gov_edu_exp), _) = trade_bases u (income_group c) n1
      in map (\<lambda>yr. trade_row_of u (country_code c) base_trade sec_enrollment ter_enrollment
                     gov_edu_exp yr (noise_position n yr))
           (range_py 2015 2024))"

section \<open>Example inputs\<close>

definition ethiopia :: country where
  "ethiopia = \<lparr>country_code = ''ETH'', country_name = ''Ethiopia'',
      region = ''Sub-Saharan Africa'', income_group = ''Low income'', population_2023 = None\<rparr>"


definition usa :: country where
  "usa = \<lparr>country_code = ''USA'', country_name = ''United States'',
      region = ''North America'', income_group = ''High income'', population_2023 = None\<rparr>"

definition skewed_draws :: draws where
  "skewed_draws n = (if n = 0 then 3 / 4 else 0)"

definition poverty_rows_of :: "string \<Rightarrow> (int \<times> real \<times> real \<times> real) list \<Rightarrow> poverty_row list" where
  "poverty_rows_of code rates =
     map (\<lambda>(y, r215, r365, r685).
            \<lparr>country_code = code, year = y, poverty_headcount_215_pct = r215,
             poverty_headcount_365_pct = r365, poverty_headcount_685_pct = r685,
             poverty_gap = None\<rparr>) rates"

definition ethiopia_poverty_rows :: "poverty_row list" where
  "ethiopia_poverty_rows =
     poverty_rows_of ''ETH''
       [(2015, 55, 72.5, 85), (2017, 52.94, 69.78, 81.81), (2019, 50.88, 67.06, 78.62),
        (2021, 48.81, 64.34, 75.44), (2023, 46.75, 61.62, 72.25)]"

definition skewed_poverty_rows :: "poverty_row list" where
  "skewed_poverty_rows =
     poverty_rows_of ''ETH''
       [(2015, 62.5, 60, 75), (2017, 60.16, 57.75, 72.19), (2019, 57.81, 55.5, 69.38),
        (2021, 55.47, 53.25, 66.56), (2023, 53.12, 51, 63.75)]"



definition top_draws :: draws where
  "top_draws n = 1"

definition trade_rows_of :: "string \<Rightarrow> (int \<times> real \<times> real \<times> real \<times> real) list \<Rightarrow> trade_row list" where
  "trade_rows_of code vals =
     map (\<lambda>(y, trade, sec, ter, gov).
            \<lparr>country_code = code, year = y, trade_pct_gdp = trade,
             secondary_enrollment_rate = sec, tertiary_enrollment_rate = ter,
             government_expenditure_education_pct = gov\<rparr>) vals"



definition usa_trade_rows :: "trade_row list" where
  "usa_trade_rows =
     trade_rows_of ''USA''
       [(2015, 160, 105, 90, 6.5), (2016, 160, 105, 90.3, 6.5), (2017, 160, 105, 90.6, 6.5),
        (2018, 160, 105, 90.9, 6.5), (2019, 160, 105, 91.2, 6.5), (2020, 160, 105, 91.5, 6.5),
        (2021, 160, 105, 91.8, 6.5), (2022, 160, 105, 92.1, 6.5), (2023, 160, 105, 92.4, 6.5)]"

section \<open>Properties of rounding, draws and loops\<close>

lemma round_half_even_lower: "x - 1 / 2 \<le> real_of_int (round_half_even x)"
  unfolding round_half_even_def Let_def by (auto; linarith)

lemma round_half_even_upper: "real_of_int (round_half_even x) \<le> x + 1 / 2"
  unfolding round_half_even_def Let_def by (auto; linarith)

lemma round_half_even_of_int: "round_half_even (real_of_int k) = k"
  unfolding round_half_even_def Let_def by simp

lemma round_half_even_floor: "\<lfloor>x\<rfloor> \<le> round_half_even x \<and> round_half_even x \<le> \<lfloor>x\<rfloor> + 1"
  unfolding round_half_even_def Let_def by auto

lemma round_half_even_mono:
  assumes "x \<le> y"
  shows "round_half_even x \<le> round_half_even y"
proof (cases "\<lfloor>x\<rfloor> = \<lfloor>y\<rfloor>")
  case True
  with assms show ?thesis
    unfolding round_half_even_def Let_def by auto
next
  case False
  with assms have "\<lfloor>x\<rfloor> < \<lfloor>y\<rfloor>"
    using floor_mono [of x y] by linarith
  then show ?thesis
    using round_half_even_floor [of x] round_half_even_floor [of y] by linarith
qed

lemma round_py_mono: "x \<le> y \<Longrightarrow> round_py x d \<le> round_py y d"
  unfolding round_py_def
  by (intro divide_right_mono of_int_le_iff [THEN iffD2] round_half_even_mono mult_right_mono) simp_all

lemma round_py_of_int: "round_py (real_of_int k) d = real_of_int k"
proof -
  have "real_of_int k * 10 ^ d = real_of_int (k * 10 ^ d)" by simp
  then show ?thesis
    unfolding round_py_def by (simp only: round_half_even_of_int) simp
qed

lemma round_py_ge: "real_of_int k \<le> x \<Longrightarrow> real_of_int k \<le> round_py x d"
  using round_py_mono [of "real_of_int k" x d] by (simp add: round_py_of_int)

lemma round_py_le: "x \<le> real_of_int k \<Longrightarrow> round_py x d \<le> real_of_int k"
  using round_py_mono [of x "real_of_int k" d] by (simp add: round_py_of_int)

lemma round_py_error: "\<bar>round_py x d - x\<bar> \<le> 1 / (2 * 10 ^ d)"
proof -
  define m :: real where "m = 10 ^ d"
  define r where "r = real_of_int (round_half_even (x * m))"
  have p: "0 < m" by (simp add: m_def)
  have "\<bar>r - x * m\<bar> \<le> 1 / 2"
    unfolding r_def
    using round_half_even_lower [of "x * m"] round_half_even_upper [of "x * m"]
    by linarith
  then have "\<bar>r - x * m\<bar> / m \<le> (1 / 2) / m"
    using p by (intro divide_right_mono) simp_all
  moreover have "round_py x d - x = (r - x * m) / m"
    unfolding round_py_def r_def m_def [symmetric] using p by (simp add: diff_divide_distrib)
  ultimately show ?thesis
    using p by (simp add: m_def [symmetric])
qed

lemma round_py_strict: 
  assumes "x + 1 / 10 ^ d < y"
  shows "round_py x d < round_py y d"
proof -
  have "(1::real) / 10 ^ d = 1 / (2 * 10 ^ d) + 1 / (2 * 10 ^ d)" by simp
  with assms round_py_error [of x d] round_py_error [of y d] show ?thesis by linarith
qed

lemma random_uniform_bounds:
  assumes "valid_draws u" and "a \<le> b"
  shows "a \<le> fst (random_uniform u a b n)" and "fst (random_uniform u a b n) \<le> b"
    and "snd (random_uniform u a b n) = Suc n"
proof -
  have u: "0 \<le> u n" "u n \<le> 1" using assms(1) by (auto simp: valid_draws_def)
  have "0 \<le> (b - a) * u n" using u assms(2) by simp
  then show "a \<le> fst (random_uniform u a b n)" by (simp add: random_uniform_def)
  have "(b - a) * u n \<le> (b - a) * 1" using u assms(2) by (intro mult_left_mono) simp_all
  then show "fst (random_uniform u a b n) \<le> b" by (simp add: random_uniform_def)
  show "snd (random_uniform u a b n) = Suc n" by (simp add: random_uniform_def)
qed

lemma for_each_invariant:
  assumes "for_each body xs s = Inr t" and "I s"
    and "\<And>x s s'. x \<in> set xs \<Longrightarrow> I s \<Longrightarrow> body x s = Inr s' \<Longrightarrow> I s'"
  shows "I t"
  using assms
proof (induction xs arbitrary: s)
  case Nil
  then show ?case by simp
next
  case (Cons x xs)
  from Cons.prems(1) obtain s' where b: "body x s = Inr s'" and r: "for_each body xs s' = Inr t"
    by (auto split: sum.splits)
  have i: "I s'" using Cons.prems(3) [of x s s'] Cons.prems(2) b by simp
  show ?case
  proof (rule Cons.IH [OF r i])
    fix y a b assume "y \<in> set xs" "I a" "body y a = Inr b"
    then show "I b" using Cons.prems(3) [of y a b] by simp
  qed
qed

lemma for_each_error:
  assumes "for_each body xs s = Inl e"
  shows "\<exists>x \<in> set xs. \<exists>t. body x t = Inl e"
  using assms
proof (induction xs arbitrary: s)
  case Nil
  then show ?case by simp
next
  case (Cons x xs)
  then show ?case by (cases "body x s") auto
qed

section \<open>Inequality records\<close>

lemma clamp_round_bounds: "20 \<le> round_py (max 20 (min 70 g)) 2 \<and> round_py (max 20 (min 70 g)) 2 \<le> 70"
  using round_py_ge [of 20 "max 20 (min 70 g)" 2] round_py_le [of "max 20 (min 70 g)" 70 2]
  by simp

lemma inequality_year_rows:
  assumes "inequality_year u code bg yr (data, n) = Inr (data', n')"
  shows "\<exists>r. data' = data @ [r] \<and> inequality_row_ok u r \<and> country_code r = code \<and> year r = yr \<and> n' = n + 3"
proof -
  let ?lo = "fst (random_uniform u 4 9 (Suc n))"
  let ?hi = "fst (random_uniform u 40 55 (Suc (Suc n)))"
  let ?g = "max 20 (min 70 (bg + fst (random_uniform u (- 3) 3 n)))"
  let ?r = "\<lparr>country_code = code, year = yr, gini_coefficient = round_py ?g 2,
              income_share_lowest_20pct = round_py ?lo 2,
              income_share_highest_20pct = round_py ?hi 2,
              palma_ratio = round_py (?hi / (?lo * 2)) 2\<rparr>"
  from assms have nz: "?lo * 2 \<noteq> 0" and d: "data' = data @ [?r]" and n: "n' = n + 3"
    by (auto simp: inequality_year_def random_uniform_def truediv_def Let_def split: if_splits)
  have "inequality_row_ok u ?r"
    unfolding inequality_row_ok_def
    using nz clamp_round_bounds [of "bg + fst (random_uniform u (- 3) 3 n)"]
    by (auto simp: mult.commute intro!: exI [of _ "Suc n"])
  with d n show ?thesis by simp
qed

lemma inequality_country_rows:
  assumes "inequality_country u c (data, n) = Inr (data', n')"
    and "\<forall>r \<in> set data. inequality_row_ok u r"
  shows "\<forall>r \<in> set data'. inequality_row_ok u r"
proof -
  from assms(1) obtain lo hi where
    loop: "for_each (inequality_year u (country_code c) (fst (random_uniform u lo hi n))) years
             (data, Suc n) = Inr (data', n')"
    by (auto simp: inequality_country_def random_uniform_def Let_def split: sum.splits prod.splits)
  have "\<forall>r \<in> set (fst (data', n')). inequality_row_ok u r"
  proof (rule for_each_invariant [OF loop,
      where I = "\<lambda>s. \<forall>r \<in> set (fst s). inequality_row_ok u r"])
    show "\<forall>r\<in>set (fst (data, Suc n)). inequality_row_ok u r" using assms(2) by simp
  next
    fix x s s'
    assume "\<forall>r\<in>set (fst s). inequality_row_ok u r"
      and "inequality_year u (country_code c) (fst (random_uniform u lo hi n)) x s = Inr s'"
    then show "\<forall>r\<in>set (fst s'). inequality_row_ok u r"
      using inequality_year_rows [of u "country_code c" _ x "fst s" "snd s" "fst s'" "snd s'"]
      by fastforce
  qed
  then show ?thesis by simp
qed

lemma lowest_20_bounds:
  assumes "valid_draws u"
  shows "4 \<le> fst (random_uniform u 4 9 k)" and "fst (random_uniform u 4 9 k) \<le> 9"
  using random_uniform_bounds [OF assms, of 4 9 k] by simp_all

lemma inequality_year_total:
  assumes "valid_draws u"
  shows "\<exists>r. inequality_year u code base_gini yr (data, m) = Inr (data @ [r], m + 3)"
  using lowest_20_bounds(1) [OF assms, of "Suc m"]
  by (simp add: inequality_year_def random_uniform_def truediv_def Let_def)

lemma inequality_country_error:
  assumes "valid_draws u" and "inequality_country u c s = Inl e"
  shows "e = KeyError (region c)"
proof (cases "getitem gini_ranges (region c)")
  case (Inl e')
  with assms(2) show ?thesis
    by (cases s) (auto simp: inequality_country_def getitem_def split: option.splits)
next
  case (Inr range)
  obtain data n where s: "s = (data, n)" by (cases s)
  obtain lo hi where range: "range = (lo, hi)" by (cases range)
  from assms(2) Inr s range have
    "for_each (inequality_year u (country_code c) (fst (random_uniform u lo hi n))) years
       (data, snd (random_uniform u lo hi n)) = Inl e"
    by (simp add: inequality_country_def Let_def split: prod.splits)
  then obtain y t where "inequality_year u (country_code c) (fst (random_uniform u lo hi n)) y t = Inl e"
    using for_each_error by fastforce
  moreover obtain r where "inequality_year u (country_code c) (fst (random_uniform u lo hi n)) y (fst t, snd t) = Inr (fst t @ [r], snd t + 3)"
    using inequality_year_total [OF assms(1)] by blast
  ultimately show ?thesis by simp
qed

text \<open>
  Claim C1. Every inequality record that the generator produces stores a Gini coefficient
  between 20 and 70, and its Palma ratio is \<open>round(highest_20 / (2 * lowest_20), 2)\<close>
  for the two shares sampled for that same record, before they are rounded: the stored
  shares are the roundings of those two values.
\<close>

theorem inequality_gini_palma:
  assumes "inequality_data u countries n = Inr (data, n')" and "r \<in> set data"
  shows "20 \<le> gini_coefficient r \<and> gini_coefficient r \<le> 70 \<and>
     (\<exists>k lowest_20 highest_20.
        lowest_20 = fst (random_uniform u 4 9 k) \<and>
        highest_20 = fst (random_uniform u 40 55 (Suc k)) \<and>
        2 * lowest_20 \<noteq> 0 \<and>
        income_share_lowest_20pct r = round_py lowest_20 2 \<and>
        income_share_highest_20pct r = round_py highest_20 2 \<and>
        palma_ratio r = round_py (highest_20 / (2 * lowest_20)) 2)"
proof -
  have "\<forall>r \<in> set (fst (data, n')). inequality_row_ok u r"
  proof (rule for_each_invariant [OF assms(1) [unfolded inequality_data_def],
      where I = "\<lambda>s. \<forall>r \<in> set (fst s). inequality_row_ok u r"])
    show "\<forall>r\<in>set (fst ([], n)). inequality_row_ok u r" by simp
  next
    fix x s s'
    assume "\<forall>r\<in>set (fst s). inequality_row_ok u r" and "inequality_country u x s = Inr s'"
    then show "\<forall>r\<in>set (fst s'). inequality_row_ok u r"
      using inequality_country_rows [of u x "fst s" "snd s" "fst s'" "snd s'"] by simp
  qed
  with assms(2) show ?thesis by (simp add: inequality_row_ok_def)
qed

theorem inequality_gini_palma_witness:
  "inequality_data (\<lambda>_. 1 / 2)
     [\<lparr>country_code = ''USA'', country_name = ''United States'', region = ''North America'',
       income_group = ''High income'', population_2023 = None\<rparr>] 0
   = Inr (map (\<lambda>y. \<lparr>country_code = ''USA'', year = y, gini_coefficient = 40,
                    income_share_lowest_20pct = 6.5, income_share_highest_20pct = 47.5,
                    palma_ratio = 3.65\<rparr>) [2015, 2017, 2019, 2021, 2023], 16)
   \<and> (20::real) \<le> 40 \<and> (40::real) \<le> 70
   \<and> (\<exists>k lowest_20 highest_20.
        lowest_20 = fst (random_uniform (\<lambda>_. 1 / 2) 4 9 k) \<and>
        highest_20 = fst (random_uniform (\<lambda>_. 1 / 2) 40 55 (Suc k)) \<and>
        2 * lowest_20 \<noteq> 0 \<and>
        6.5 = round_py lowest_20 2 \<and> 47.5 = round_py highest_20 2 \<and>
        3.65 = round_py (highest_20 / (2 * lowest_20)) 2)"
proof -
  let ?r = "\<lparr>country_code = ''USA'', year = 2015, gini_coefficient = 40,
             income_share_lowest_20pct = 6.5, income_share_highest_20pct = 47.5,
             palma_ratio = 3.65\<rparr>"
  have run: "inequality_data (\<lambda>_. 1 / 2)
     [\<lparr>country_code = ''USA'', country_name = ''United States'', region = ''North America'',
       income_group = ''High income'', population_2023 = None\<rparr>] 0
   = Inr (map (\<lambda>y. \<lparr>country_code = ''USA'', year = y, gini_coefficient = 40,
                    income_share_lowest_20pct = 6.5, income_share_highest_20pct = 47.5,
                    palma_ratio = 3.65\<rparr>) [2015, 2017, 2019, 2021, 2023], 16)"
    by (simp add: inequality_data_def inequality_country_def inequality_year_def getitem_def
        gini_ranges_def years_def random_uniform_def truediv_def round_py_def
        round_half_even_def Let_def)
  show ?thesis
    using run inequality_gini_palma [OF run, of ?r] by simp
qed

text \<open>
  Claim C10. The division that computes the Palma ratio is always defined: the lowest
  share is at least 4, so the divisor \<open>lowest_20 * 2\<close> is at least 8, the division does
  not raise, the body of the loop over the survey years always appends a row, and the
  generator never raises \<open>ZeroDivisionError\<close>, for all countries, years and draws.
\<close>

theorem palma_division_defined:
  assumes "valid_draws u"
  shows "4 \<le> fst (random_uniform u 4 9 k) \<and> 8 \<le> fst (random_uniform u 4 9 k) * 2
     \<and> truediv highest_20 (fst (random_uniform u 4 9 k) * 2) \<noteq> Inl ZeroDivisionError
     \<and> (\<exists>r. inequality_year u code base_gini yr (data, m) = Inr (data @ [r], m + 3))
     \<and> inequality_data u countries n \<noteq> Inl ZeroDivisionError"
proof -
  have lo: "4 \<le> fst (random_uniform u 4 9 k)"
    by (rule lowest_20_bounds(1) [OF assms])
  have "inequality_data u countries n \<noteq> Inl ZeroDivisionError"
  proof
    assume "inequality_data u countries n = Inl ZeroDivisionError"
    then obtain c s where "inequality_country u c s = Inl ZeroDivisionError"
      unfolding inequality_data_def using for_each_error by fastforce
    then show False using inequality_country_error [OF assms] by fastforce
  qed
  with lo inequality_year_total [OF assms, of code base_gini yr data m] show ?thesis
    by (simp add: truediv_def)
qed

theorem palma_division_defined_witness:
  "valid_draws (\<lambda>_. 0) \<and> fst (random_uniform (\<lambda>_. 0) 4 9 0) * 2 = 8
     \<and> truediv 40 (fst (random_uniform (\<lambda>_. 0) 4 9 0) * 2) = Inr 5
     \<and> inequality_data (\<lambda>_. 0)
          [\<lparr>country_code = ''IND'', country_name = ''India'', region = ''South Asia'',
            income_group = ''Lower middle income'', population_2023 = None\<rparr>] 0
        \<noteq> Inl ZeroDivisionError"
proof -
  have v: "valid_draws (\<lambda>_. 0)" by (simp add: valid_draws_def)
  show ?thesis
    using v palma_division_defined [OF v, of 0 40]
    by (simp add: random_uniform_def truediv_def)
qed

section \<open>GDP records\<close>










section \<open>Poverty records\<close>

lemma poverty_year_eq:
  "poverty_year code b1 b2 b3 yr data = data @ [poverty_row_of code b1 b2 b3 yr]"
  by (simp add: poverty_year_def poverty_row_of_def reduction_factor_def Let_def)

lemma poverty_years_eq:
  "fold (poverty_year code b1 b2 b3) ys data = data @ map (poverty_row_of code b1 b2 b3) ys"
  by (induction ys arbitrary: data) (simp_all add: poverty_year_eq)

lemma poverty_country_eq:
  "\<exists>n'. poverty_country u c (data, n) = (data @ poverty_block u c n, n')"
  by (simp add: poverty_country_def poverty_block_def poverty_years_eq Let_def split: prod.splits)

lemma poverty_bases_eq:
  "poverty_bases u ig n =
     (if ig = ''Low income'' then
        ((fst (random_uniform u 40 70 n), fst (random_uniform u 60 85 (Suc n)),
          fst (random_uniform u 75 95 (Suc (Suc n)))), n + 3)
      else if ig = ''Lower middle income'' then
        ((fst (random_uniform u 10 40 n), fst (random_uniform u 25 60 (Suc n)),
          fst (random_uniform u 50 80 (Suc (Suc n)))), n + 3)
      else
        ((fst (random_uniform u 1 15 n), fst (random_uniform u 5 30 (Suc n)),
          fst (random_uniform u 15 50 (Suc (Suc n)))), n + 3))"
  by (simp add: poverty_bases_def random_uniform_def Let_def)

lemma uniform_ge_1:
  assumes "valid_draws u" and "a \<le> b" and "1 \<le> a"
  shows "1 \<le> fst (random_uniform u a b k)"
  using random_uniform_bounds(1) [OF assms(1,2), of k] assms(3) by linarith

lemma poverty_bases_lower:
  assumes "valid_draws u" and "poverty_bases u ig n = ((b1, b2, b3), n')"
  shows "1 \<le> b1 \<and> 1 \<le> b2 \<and> 1 \<le> b3"
proof -
  note lo = uniform_ge_1 [OF assms(1)]
  consider "ig = ''Low income''" | "ig \<noteq> ''Low income''" "ig = ''Lower middle income''"
    | "ig \<noteq> ''Low income''" "ig \<noteq> ''Lower middle income''"
    by blast
  then show ?thesis
  proof cases
    case 1
    with assms(2) have "b1 = fst (random_uniform u 40 70 n)"
      "b2 = fst (random_uniform u 60 85 (Suc n))" "b3 = fst (random_uniform u 75 95 (Suc (Suc n)))"
      by (simp_all add: poverty_bases_eq)
    then show ?thesis using lo [of 40 70] lo [of 60 85] lo [of 75 95] by simp
  next
    case 2
    with assms(2) have "b1 = fst (random_uniform u 10 40 n)"
      "b2 = fst (random_uniform u 25 60 (Suc n))" "b3 = fst (random_uniform u 50 80 (Suc (Suc n)))"
      by (simp_all add: poverty_bases_eq)
    then show ?thesis using lo [of 10 40] lo [of 25 60] lo [of 50 80] by simp
  next
    case 3
    with assms(2) have "b1 = fst (random_uniform u 1 15 n)"
      "b2 = fst (random_uniform u 5 30 (Suc n))" "b3 = fst (random_uniform u 15 50 (Suc (Suc n)))"
      by (simp_all add: poverty_bases_eq)
    then show ?thesis using lo [of 1 15] lo [of 5 30] lo [of 15 50] by simp
  qed
qed

lemma headcount_decreases:
  assumes "1 \<le> b" and "y1 < y2"
  shows "round_py (b * reduction_factor y2) 2 < round_py (b * reduction_factor y1) 2"
proof (rule round_py_strict)
  have gap: "real_of_int y1 + 1 \<le> real_of_int y2" using assms(2) by linarith
  have "reduction_factor y1 - reduction_factor y2
      = (real_of_int y2 - real_of_int y1) * (3 / 160)"
    by (simp add: reduction_factor_def field_simps)
  with gap have "3 / 160 \<le> reduction_factor y1 - reduction_factor y2" by simp
  then have "1 * (3 / 160) \<le> b * (reduction_factor y1 - reduction_factor y2)"
    using assms(1) by (intro mult_mono) simp_all
  then show "b * reduction_factor y2 + 1 / 10 ^ 2 < b * reduction_factor y1"
    by (simp add: right_diff_distrib)
qed

lemma poverty_block_mem:
  assumes "r \<in> set (poverty_block u c n)"
  shows "poverty_eligible (income_group c)
    \<and> (\<exists>b1 b2 b3 n' yr. poverty_bases u (income_group c) n = ((b1, b2, b3), n')
          \<and> yr \<in> set years \<and> r = poverty_row_of (country_code c) b1 b2 b3 yr)"
proof (cases "poverty_eligible (income_group c)")
  case False
  then have "poverty_block u c n = []"
    unfolding poverty_block_def poverty_eligible_def by (simp only: if_False)
  with assms show ?thesis by simp
next
  case True
  obtain b1 b2 b3 n' where b: "poverty_bases u (income_group c) n = ((b1, b2, b3), n')"
    by (metis prod.exhaust)
  from True have "poverty_block u c n = map (poverty_row_of (country_code c) b1 b2 b3) years"
    unfolding poverty_block_def poverty_eligible_def by (simp only: if_True b Let_def prod.case)
  with assms obtain yr where "yr \<in> set years" "r = poverty_row_of (country_code c) b1 b2 b3 yr"
    by (auto simp only: set_map)
  with True b show ?thesis by blast
qed

lemma poverty_block_rows:
  assumes "r \<in> set (poverty_block u c n)"
  shows "country_code r = country_code c \<and> poverty_eligible (income_group c)"
proof -
  from poverty_block_mem [OF assms] obtain b1 b2 b3 yr where
    "poverty_eligible (income_group c)"
    "r = poverty_row_of (country_code c) b1 b2 b3 yr"
    by blast
  then show ?thesis by (simp only: poverty_row_of_def) simp
qed

lemma poverty_block_decreasing:
  assumes "valid_draws u" and "r1 \<in> set (poverty_block u c n)" and "r2 \<in> set (poverty_block u c n)"
    and "year r1 < year r2"
  shows "poverty_headcount_215_pct r2 < poverty_headcount_215_pct r1
    \<and> poverty_headcount_365_pct r2 < poverty_headcount_365_pct r1
    \<and> poverty_headcount_685_pct r2 < poverty_headcount_685_pct r1"
proof -
  from poverty_block_mem [OF assms(2)] obtain b1 b2 b3 n' y1 where
    b: "poverty_bases u (income_group c) n = ((b1, b2, b3), n')" and
    r1: "r1 = poverty_row_of (country_code c) b1 b2 b3 y1"
    by blast
  from poverty_block_mem [OF assms(3)] b obtain y2 where
    r2: "r2 = poverty_row_of (country_code c) b1 b2 b3 y2"
    by auto
  from assms(4) r1 r2 have "y1 < y2" by (simp add: poverty_row_of_def)
  then show ?thesis
    using poverty_bases_lower [OF assms(1) b] r1 r2
    by (simp add: poverty_row_of_def headcount_decreases)
qed

lemma poverty_rows_okD1:
  "poverty_rows_ok cs rows \<Longrightarrow> r \<in> set rows \<Longrightarrow>
     \<exists>c \<in> set cs. country_code r = country_code c \<and> poverty_eligible (income_group c)"
  unfolding poverty_rows_ok_def by (elim conjE) (erule bspec)

lemma poverty_rows_okD2:
  "poverty_rows_ok cs rows \<Longrightarrow> r1 \<in> set rows \<Longrightarrow> r2 \<in> set rows \<Longrightarrow>
     country_code r1 = country_code r2 \<Longrightarrow> year r1 < year r2 \<Longrightarrow>
       poverty_headcount_215_pct r2 < poverty_headcount_215_pct r1 \<and>
       poverty_headcount_365_pct r2 < poverty_headcount_365_pct r1 \<and>
       poverty_headcount_685_pct r2 < poverty_headcount_685_pct r1"
  unfolding poverty_rows_ok_def by blast

lemma poverty_fold_rows:
  assumes "valid_draws u" and "distinct (map country_code cs)"
  shows "\<exists>new n'. fold (poverty_country u) cs (data, n) = (data @ new, n') \<and> poverty_rows_ok cs new"
  using assms(2)
proof (induction cs arbitrary: data n)
  case Nil
  then show ?case by (simp add: poverty_rows_ok_def)
next
  case (Cons c cs)
  obtain n1 where c: "poverty_country u c (data, n) = (data @ poverty_block u c n, n1)"
    using poverty_country_eq by blast
  from Cons.prems have d: "distinct (map country_code cs)" and
    fresh: "country_code c \<notin> country_code ` set cs" by simp_all
  from Cons.IH [OF d, of "data @ poverty_block u c n" n1] obtain new n' where
    f: "fold (poverty_country u) cs (data @ poverty_block u c n, n1)
          = ((data @ poverty_block u c n) @ new, n')" and
    ok: "poverty_rows_ok cs new"
    by blast
  let ?b = "poverty_block u c n"
  have blk: "country_code r = country_code c" if "r \<in> set ?b" for r
    using poverty_block_rows [OF that] by (rule conjunct1)
  have new: "country_code r \<noteq> country_code c" if "r \<in> set new" for r
  proof -
    from poverty_rows_okD1 [OF ok that] obtain c' where
      "c' \<in> set cs" "country_code r = country_code c'" by blast
    then have "country_code r \<in> country_code ` set cs" by (simp add: image_iff) blast
    with fresh show ?thesis by metis
  qed
  have "poverty_rows_ok (c # cs) (?b @ new)"
    unfolding poverty_rows_ok_def
  proof (intro conjI ballI impI)
    fix r assume "r \<in> set (?b @ new)"
    then consider "r \<in> set ?b" | "r \<in> set new" by auto
    then show "\<exists>c' \<in> set (c # cs). country_code r = country_code c' \<and>
        poverty_eligible (income_group c')"
    proof cases
      case 1
      then show ?thesis using poverty_block_rows [of r u c n] by (meson list.set_intros(1))
    next
      case 2
      from poverty_rows_okD1 [OF ok 2] show ?thesis by (meson list.set_intros(2))
    qed
  next
    fix r1 r2
    assume r1: "r1 \<in> set (?b @ new)" and r2: "r2 \<in> set (?b @ new)"
      and h: "country_code r1 = country_code r2 \<and> year r1 < year r2"
    consider "r1 \<in> set ?b" "r2 \<in> set ?b" | "r1 \<in> set new" "r2 \<in> set new"
      | "r1 \<in> set ?b" "r2 \<in> set new" | "r1 \<in> set new" "r2 \<in> set ?b"
      using r1 r2 by auto
    then have "poverty_headcount_215_pct r2 < poverty_headcount_215_pct r1 \<and>
          poverty_headcount_365_pct r2 < poverty_headcount_365_pct r1 \<and>
          poverty_headcount_685_pct r2 < poverty_headcount_685_pct r1"
    proof cases
      case 1
      then show ?thesis using poverty_block_decreasing [OF assms(1), of r1 c n r2] h by simp
    next
      case 2
      then show ?thesis using poverty_rows_okD2 [OF ok, of r1 r2] h by simp
    next
      case 3
      then show ?thesis using blk [of r1] new [of r2] h by simp
    next
      case 4
      then show ?thesis using blk [of r2] new [of r1] h by simp
    qed
    then show "poverty_headcount_215_pct r2 < poverty_headcount_215_pct r1"
      "poverty_headcount_365_pct r2 < poverty_headcount_365_pct r1"
      "poverty_headcount_685_pct r2 < poverty_headcount_685_pct r1"
      by simp_all
  qed
  with c f show ?case by simp
qed

lemma high_income_not_eligible: "\<not> poverty_eligible ''High income''"
  by (simp add: poverty_eligible_def)

text \<open>
  Claim C3. For the countries of the poverty table, whose codes are distinct, each of the
  three headcount rates of a country strictly decreases as the survey year increases: a
  rate is the country's fixed base, multiplied by \<open>1 - 0.15 * (year - 2015) / 8\<close> and
  rounded to two decimals. No poverty row exists for a country whose income group is
  \<open>High income\<close>.
\<close>

theorem poverty_decreasing_and_none_for_high_income:
  assumes "valid_draws u" and "distinct (map country_code countries)"
    and "poverty_data u countries n = (data, n')"
  shows "(\<forall>r1 \<in> set data. \<forall>r2 \<in> set data.
            country_code r1 = country_code r2 \<and> year r1 < year r2 \<longrightarrow>
              poverty_headcount_215_pct r2 < poverty_headcount_215_pct r1 \<and>
              poverty_headcount_365_pct r2 < poverty_headcount_365_pct r1 \<and>
              poverty_headcount_685_pct r2 < poverty_headcount_685_pct r1)
      \<and> (\<forall>c \<in> set countries. income_group c = ''High income'' \<longrightarrow>
            (\<forall>r \<in> set data. country_code r \<noteq> country_code c))"
proof -
  from poverty_fold_rows [OF assms(1,2), of "[]" n] assms(3)
  have ok: "poverty_rows_ok countries data"
    by (auto simp: poverty_data_def)
  have inj: "inj_on country_code (set countries)"
    using assms(2) by (simp add: distinct_map)
  have "\<forall>c \<in> set countries. income_group c = ''High income'' \<longrightarrow>
            (\<forall>r \<in> set data. country_code r \<noteq> country_code c)"
  proof (intro ballI impI)
    fix c r assume c: "c \<in> set countries" "income_group c = ''High income''" and r: "r \<in> set data"
    from poverty_rows_okD1 [OF ok r] obtain c' where c': "c' \<in> set countries"
      "country_code r = country_code c'" "poverty_eligible (income_group c')"
      by blast
    show "country_code r \<noteq> country_code c"
    proof
      assume "country_code r = country_code c"
      with c'(2) have e: "country_code c' = country_code c" by simp
      from inj e c'(1) c(1) have "c' = c" by (rule inj_onD)
      with c'(3) c(2) high_income_not_eligible show False by simp
    qed
  qed
  moreover have "\<forall>r1 \<in> set data. \<forall>r2 \<in> set data.
            country_code r1 = country_code r2 \<and> year r1 < year r2 \<longrightarrow>
              poverty_headcount_215_pct r2 < poverty_headcount_215_pct r1 \<and>
              poverty_headcount_365_pct r2 < poverty_headcount_365_pct r1 \<and>
              poverty_headcount_685_pct r2 < poverty_headcount_685_pct r1"
    using poverty_rows_okD2 [OF ok] by blast
  ultimately show ?thesis by (intro conjI)
qed

lemma poverty_fold_mem:
  assumes "fold (poverty_country u) cs (data, n) = (data', n')" and "r \<in> set data'"
  shows "r \<in> set data \<or> (\<exists>c \<in> set cs. \<exists>m. r \<in> set (poverty_block u c m))"
  using assms
proof (induction cs arbitrary: data n)
  case Nil
  then show ?case by simp
next
  case (Cons c cs)
  obtain n1 where c: "poverty_country u c (data, n) = (data @ poverty_block u c n, n1)"
    using poverty_country_eq by blast
  with Cons.prems(1) have "fold (poverty_country u) cs (data @ poverty_block u c n, n1) = (data', n')"
    by simp
  from Cons.IH [OF this Cons.prems(2)] show ?case by auto
qed

lemma reduction_factor_nonneg: "yr \<in> set years \<Longrightarrow> 0 \<le> reduction_factor yr"
  by (auto simp: years_def reduction_factor_def)

lemma poverty_bases_ends:
  assumes "valid_draws u" and "poverty_bases u ig n = ((b1, b2, b3), n')"
  shows "b1 \<le> b3"
proof -
  note b = random_uniform_bounds [OF assms(1)]
  consider "ig = ''Low income''" | "ig \<noteq> ''Low income''" "ig = ''Lower middle income''"
    | "ig \<noteq> ''Low income''" "ig \<noteq> ''Lower middle income''"
    by blast
  then show ?thesis
  proof cases
    case 1
    with assms(2) have "b1 = fst (random_uniform u 40 70 n)"
      "b3 = fst (random_uniform u 75 95 (Suc (Suc n)))"
      by (simp_all add: poverty_bases_eq)
    then show ?thesis using b(2) [of 40 70 n] b(1) [of 75 95 "Suc (Suc n)"] by simp
  next
    case 2
    with assms(2) have "b1 = fst (random_uniform u 10 40 n)"
      "b3 = fst (random_uniform u 50 80 (Suc (Suc n)))"
      by (simp_all add: poverty_bases_eq)
    then show ?thesis using b(2) [of 10 40 n] b(1) [of 50 80 "Suc (Suc n)"] by simp
  next
    case 3
    with assms(2) have "b1 = fst (random_uniform u 1 15 n)"
      "b3 = fst (random_uniform u 15 50 (Suc (Suc n)))"
      by (simp_all add: poverty_bases_eq)
    then show ?thesis using b(2) [of 1 15 n] b(1) [of 15 50 "Suc (Suc n)"] by simp
  qed
qed

lemma headcount_mono:
  assumes "a \<le> b" and "yr \<in> set years"
  shows "round_py (a * reduction_factor yr) 2 \<le> round_py (b * reduction_factor yr) 2"
  using assms reduction_factor_nonneg [OF assms(2)]
  by (intro round_py_mono mult_right_mono)

text \<open>
  Claim C5, amended. In every poverty row the rate at the 2.15 line is at most the rate
  at the 6.85 line, for all draws; the rate at the 3.65 line lies between them whenever
  the bases drawn for the country are ordered that way, which the draws need not be.
\<close>

theorem poverty_lines_ordered_ends:
  assumes "valid_draws u" and "poverty_data u countries n = (data, n')" and "r \<in> set data"
  shows "poverty_headcount_215_pct r \<le> poverty_headcount_685_pct r
    \<and> (\<exists>c m base_215 base_365 base_685 k.
          c \<in> set countries \<and> country_code r = country_code c \<and>
          poverty_bases u (income_group c) m = ((base_215, base_365, base_685), k) \<and>
          poverty_headcount_215_pct r = round_py (base_215 * reduction_factor (year r)) 2 \<and>
          poverty_headcount_365_pct r = round_py (base_365 * reduction_factor (year r)) 2 \<and>
          poverty_headcount_685_pct r = round_py (base_685 * reduction_factor (year r)) 2 \<and>
          (base_215 \<le> base_365 \<longrightarrow> poverty_headcount_215_pct r \<le> poverty_headcount_365_pct r) \<and>
          (base_365 \<le> base_685 \<longrightarrow> poverty_headcount_365_pct r \<le> poverty_headcount_685_pct r))"
proof -
  from poverty_fold_mem [OF assms(2) [unfolded poverty_data_def] assms(3)]
  obtain c m where c: "c \<in> set countries" and r: "r \<in> set (poverty_block u c m)"
    by auto
  from poverty_block_mem [OF r] obtain b1 b2 b3 k yr where
    b: "poverty_bases u (income_group c) m = ((b1, b2, b3), k)" and
    yr: "yr \<in> set years" and
    row: "r = poverty_row_of (country_code c) b1 b2 b3 yr"
    by blast
  have f: "poverty_headcount_215_pct r = round_py (b1 * reduction_factor (year r)) 2"
    "poverty_headcount_365_pct r = round_py (b2 * reduction_factor (year r)) 2"
    "poverty_headcount_685_pct r = round_py (b3 * reduction_factor (year r)) 2"
    "country_code r = country_code c" "year r = yr"
    by (simp_all add: row poverty_row_of_def)
  have ends: "poverty_headcount_215_pct r \<le> poverty_headcount_685_pct r"
    unfolding f(1,3) f(5) by (rule headcount_mono [OF poverty_bases_ends [OF assms(1) b] yr])
  have m1: "b1 \<le> b2 \<longrightarrow> poverty_headcount_215_pct r \<le> poverty_headcount_365_pct r"
    unfolding f(1,2) f(5) using headcount_mono [OF _ yr] by blast
  have m2: "b2 \<le> b3 \<longrightarrow> poverty_headcount_365_pct r \<le> poverty_headcount_685_pct r"
    unfolding f(2,3) f(5) using headcount_mono [OF _ yr] by blast
  from c b f(1-4) m1 m2 have "\<exists>c m base_215 base_365 base_685 k.
          c \<in> set countries \<and> country_code r = country_code c \<and>
          poverty_bases u (income_group c) m = ((base_215, base_365, base_685), k) \<and>
          poverty_headcount_215_pct r = round_py (base_215 * reduction_factor (year r)) 2 \<and>
          poverty_headcount_365_pct r = round_py (base_365 * reduction_factor (year r)) 2 \<and>
          poverty_headcount_685_pct r = round_py (base_685 * reduction_factor (year r)) 2 \<and>
          (base_215 \<le> base_365 \<longrightarrow> poverty_headcount_215_pct r \<le> poverty_headcount_365_pct r) \<and>
          (base_365 \<le> base_685 \<longrightarrow> poverty_headcount_365_pct r \<le> poverty_headcount_685_pct r)"
    by blast
  with ends show ?thesis by (rule conjI)
qed

lemmas poverty_eval =
  poverty_data_def poverty_country_def poverty_bases_def poverty_year_def years_def
  random_uniform_def round_py_def round_half_even_def Let_def poverty_rows_of_def

theorem poverty_decreasing_and_none_for_high_income_witness:
  "valid_draws (\<lambda>_. 1 / 2) \<and> distinct (map country_code [usa, ethiopia]) \<and>
   poverty_data (\<lambda>_. 1 / 2) [usa, ethiopia] 0 = (ethiopia_poverty_rows, 3) \<and>
   year (ethiopia_poverty_rows ! 0) = 2015 \<and> year (ethiopia_poverty_rows ! 1) = 2017 \<and>
   poverty_headcount_215_pct (ethiopia_poverty_rows ! 0) = 55 \<and>
   poverty_headcount_215_pct (ethiopia_poverty_rows ! 1) = 52.94 \<and>
   poverty_headcount_215_pct (ethiopia_poverty_rows ! 1)
     < poverty_headcount_215_pct (ethiopia_poverty_rows ! 0) \<and>
   poverty_headcount_365_pct (ethiopia_poverty_rows ! 1)
     < poverty_headcount_365_pct (ethiopia_poverty_rows ! 0) \<and>
   poverty_headcount_685_pct (ethiopia_poverty_rows ! 1)
     < poverty_headcount_685_pct (ethiopia_poverty_rows ! 0) \<and>
   income_group usa = ''High income'' \<and>
   country_code (ethiopia_poverty_rows ! 0) \<noteq> country_code usa"
proof -
  let ?r0 = "ethiopia_poverty_rows ! 0" and ?r1 = "ethiopia_poverty_rows ! 1"
  have v: "valid_draws (\<lambda>_. 1 / 2)" by (simp add: valid_draws_def)
  have d: "distinct (map country_code [usa, ethiopia])" by (simp add: usa_def ethiopia_def)
  have run: "poverty_data (\<lambda>_. 1 / 2) [usa, ethiopia] 0 = (ethiopia_poverty_rows, 3)"
    by (simp add: poverty_eval usa_def ethiopia_def ethiopia_poverty_rows_def)
  have rows: "?r0 \<in> set ethiopia_poverty_rows" "?r1 \<in> set ethiopia_poverty_rows"
    "country_code ?r0 = country_code ?r1" "year ?r0 < year ?r1"
    "year ?r0 = 2015" "year ?r1 = 2017"
    "poverty_headcount_215_pct ?r0 = 55" "poverty_headcount_215_pct ?r1 = 52.94"
    by (simp_all add: ethiopia_poverty_rows_def poverty_rows_of_def)
  have high: "usa \<in> set [usa, ethiopia]" "income_group usa = ''High income''"
    by (simp_all add: usa_def)
  note main = poverty_decreasing_and_none_for_high_income [OF v d run]
  have dec: "poverty_headcount_215_pct ?r1 < poverty_headcount_215_pct ?r0 \<and>
      poverty_headcount_365_pct ?r1 < poverty_headcount_365_pct ?r0 \<and>
      poverty_headcount_685_pct ?r1 < poverty_headcount_685_pct ?r0"
    using main [THEN conjunct1] rows(1-4) by blast
  have none: "country_code ?r0 \<noteq> country_code usa"
    using main [THEN conjunct2] rows(1) high by blast
  from v d run rows(5-8) dec high(2) none show ?thesis by blast
qed

text \<open>
  Claim C5, as stated, fails: the three base rates are drawn independently from ranges
  that overlap, so the rate at the 2.15 line can exceed the rate at the 3.65 line. For a
  low income country and the draws \<open>3/4, 0, 0\<close> the bases are 62.5, 60 and 75, and
  the row of 2015 stores them as they are.
\<close>

theorem poverty_lines_not_monotone_counterexample:
  "valid_draws skewed_draws \<and>
   poverty_data skewed_draws [ethiopia] 0 = (skewed_poverty_rows, 3) \<and>
   year (hd skewed_poverty_rows) = 2015 \<and>
   poverty_headcount_215_pct (hd skewed_poverty_rows) = 62.5 \<and>
   poverty_headcount_365_pct (hd skewed_poverty_rows) = 60 \<and>
   \<not> poverty_headcount_215_pct (hd skewed_poverty_rows)
       \<le> poverty_headcount_365_pct (hd skewed_poverty_rows)"
proof -
  have v: "valid_draws skewed_draws" by (simp add: valid_draws_def skewed_draws_def)
  have run: "poverty_data skewed_draws [ethiopia] 0 = (skewed_poverty_rows, 3)"
    by (simp add: poverty_eval ethiopia_def skewed_poverty_rows_def skewed_draws_def)
  show ?thesis
    using v run by (simp add: skewed_poverty_rows_def poverty_rows_of_def)
qed

theorem poverty_lines_ordered_ends_witness:
  "valid_draws skewed_draws \<and>
   poverty_data skewed_draws [ethiopia] 0 = (skewed_poverty_rows, 3) \<and>
   hd skewed_poverty_rows \<in> set skewed_poverty_rows \<and>
   poverty_headcount_215_pct (hd skewed_poverty_rows)
     \<le> poverty_headcount_685_pct (hd skewed_poverty_rows) \<and>
   poverty_headcount_215_pct (hd skewed_poverty_rows) = 62.5 \<and>
   poverty_headcount_685_pct (hd skewed_poverty_rows) = 75"
proof -
  have v: "valid_draws skewed_draws" by (simp add: valid_draws_def skewed_draws_def)
  have run: "poverty_data skewed_draws [ethiopia] 0 = (skewed_poverty_rows, 3)"
    by (simp add: poverty_eval ethiopia_def skewed_poverty_rows_def skewed_draws_def)
  have r: "hd skewed_poverty_rows \<in> set skewed_poverty_rows"
    by (simp add: skewed_poverty_rows_def poverty_rows_of_def)
  have "poverty_headcount_215_pct (hd skewed_poverty_rows)
     \<le> poverty_headcount_685_pct (hd skewed_poverty_rows)"
    using poverty_lines_ordered_ends [OF v run r] by (rule conjunct1)
  with v run r show ?thesis
    by (simp add: skewed_poverty_rows_def poverty_rows_of_def)
qed

section \<open>Trade and education records\<close>

lemma range_2015_2024: "range_py 2015 2024 = [2015, 2016, 2017, 2018, 2019, 2020, 2021, 2022, 2023]"
  by (simp add: range_py_def upto_rec1)

lemma trade_year_eq:
  "trade_year u code bt sec ter gov yr (data, m)
     = (data @ [trade_row_of u code bt sec ter gov yr m], m + 2)"
  by (simp add: trade_year_def trade_row_of_def random_uniform_def Let_def)

lemma trade_years_eq:
  "fold (trade_year u code bt sec ter gov) (range_py 2015 2024) (data, n + 4)
     = (data @ map (\<lambda>yr. trade_row_of u code bt sec ter gov yr (noise_position n yr))
                 (range_py 2015 2024), n + 22)"
  by (simp add: range_2015_2024 trade_year_eq noise_position_def eval_nat_numeral)

lemma trade_bases_eq:
  "trade_bases u ig n =
     (if ig = ''High income'' then
        ((fst (random_uniform u 95 105 n), fst (random_uniform u 60 90 (Suc n)),
          fst (random_uniform u 4 6 (Suc (Suc n)))), n + 3)
      else if ig = ''Upper middle income'' then
        ((fst (random_uniform u 75 95 n), fst (random_uniform u 30 60 (Suc n)),
          fst (random_uniform u 3.5 5.5 (Suc (Suc n)))), n + 3)
      else if ig = ''Lower middle income'' then
        ((fst (random_uniform u 50 80 n), fst (random_uniform u 15 40 (Suc n)),
          fst (random_uniform u 3 5 (Suc (Suc n)))), n + 3)
      else
        ((fst (random_uniform u 30 60 n), fst (random_uniform u 5 20 (Suc n)),
          fst (random_uniform u 2 4 (Suc (Suc n)))), n + 3))"
  by (simp add: trade_bases_def random_uniform_def Let_def)

lemma trade_bases_position: "snd (trade_bases u ig n) = n + 3"
  by (simp add: trade_bases_eq)

lemma trade_country_eq:
  "trade_country u c (data, n) = (data @ trade_block u c n, n + 22)"
proof -
  obtain sec ter gov k where b: "trade_bases u (income_group c) (Suc n) = ((sec, ter, gov), k)"
    by (metis prod.exhaust)
  with trade_bases_position [of u "income_group c" "Suc n"] have k: "k = n + 4" by simp
  show ?thesis
    unfolding trade_country_def trade_block_def
    by (simp only: random_uniform_def [of u 40 150 n] Let_def prod.case b k trade_years_eq)
qed

lemma trade_fold_eq:
  "fold (trade_country u) cs (data, n)
     = (data @ concat (map (\<lambda>(c, i). trade_block u c (n + 22 * i)) (zip cs [0 ..< length cs])),
        n + 22 * length cs)"
proof (induction cs arbitrary: data n)
  case Nil
  then show ?case by simp
next
  case (Cons c cs)
  have z: "zip (c # cs) [0 ..< length (c # cs)]
      = (c, 0) # map (\<lambda>(c, i). (c, Suc i)) (zip cs [0 ..< length cs])"
    by (simp add: upt_conv_Cons map_Suc_upt [symmetric] zip_map2 del: upt_Suc)
  show ?case
    unfolding z
    by (simp add: trade_country_eq Cons.IH comp_def case_prod_beta add.assoc del: upt_Suc)
qed

lemma trade_block_mem:
  assumes "r \<in> set (trade_block u c m)"
  shows "\<exists>sec ter gov k yr.
      trade_bases u (income_group c) (Suc m) = ((sec, ter, gov), k) \<and>
      yr \<in> set (range_py 2015 2024) \<and>
      r = trade_row_of u (country_code c) (fst (random_uniform u 40 150 m)) sec ter gov yr
            (noise_position m yr)"
proof -
  obtain sec ter gov k where b: "trade_bases u (income_group c) (Suc m) = ((sec, ter, gov), k)"
    by (metis prod.exhaust)
  have "trade_block u c m
      = map (\<lambda>yr. trade_row_of u (country_code c) (fst (random_uniform u 40 150 m)) sec ter gov
                     yr (noise_position m yr)) (range_py 2015 2024)"
    unfolding trade_block_def
    by (simp only: random_uniform_def [of u 40 150 m] Let_def prod.case b fst_conv)
  with assms obtain yr where "yr \<in> set (range_py 2015 2024)"
    "r = trade_row_of u (country_code c) (fst (random_uniform u 40 150 m)) sec ter gov yr
            (noise_position m yr)"
    by (auto simp only: set_map)
  with b show ?thesis by blast
qed

lemma trade_data_mem:
  assumes "trade_data u cs n = (data, n')" and "r \<in> set data"
  shows "\<exists>c \<in> set cs. \<exists>m. r \<in> set (trade_block u c m)"
proof -
  from assms(1) have "data = concat (map (\<lambda>(c, i). trade_block u c (n + 22 * i))
      (zip cs [0 ..< length cs]))"
    by (simp add: trade_data_def trade_fold_eq)
  with assms(2) obtain c i where "(c, i) \<in> set (zip cs [0 ..< length cs])"
    "r \<in> set (trade_block u c (n + 22 * i))"
    by auto
  then show ?thesis by (meson set_zip_leftD)
qed

lemma range_years_bounds: "yr \<in> set (range_py 2015 2024) \<Longrightarrow> 2015 \<le> yr \<and> yr \<le> 2023"
  unfolding range_py_def by (simp only: set_upto) simp

lemma trade_bases_tertiary:
  assumes "valid_draws u" and "trade_bases u ig n = ((sec, ter, gov), k)"
  shows "ter \<le> 90"
proof -
  note b = random_uniform_bounds(2) [OF assms(1)]
  have "ter = fst (random_uniform u 60 90 (Suc n)) \<or> ter = fst (random_uniform u 30 60 (Suc n))
      \<or> ter = fst (random_uniform u 15 40 (Suc n)) \<or> ter = fst (random_uniform u 5 20 (Suc n))"
    using assms(2) by (simp add: trade_bases_eq split: if_splits)
  then show ?thesis
    using b [of 60 90 "Suc n"] b [of 30 60 "Suc n"] b [of 15 40 "Suc n"] b [of 5 20 "Suc n"]
    by auto
qed

text \<open>
  Claim C6. In every trade and education row, for every country, year and draw of the
  base values, the secondary enrollment rate is at most 105 and the tertiary enrollment
  rate is at most 105: the first is capped, the second starts at 90 at most and gains
  0.3 in each of at most eight years.
\<close>

theorem enrollment_rates_capped:
  assumes "valid_draws u" and "trade_data u countries n = (data, n')" and "r \<in> set data"
  shows "secondary_enrollment_rate r \<le> 105 \<and> tertiary_enrollment_rate r \<le> 105"
proof -
  from trade_data_mem [OF assms(2,3)] obtain c m where r: "r \<in> set (trade_block u c m)"
    by blast
  from trade_block_mem [OF r] obtain sec ter gov k yr where
    b: "trade_bases u (income_group c) (Suc m) = ((sec, ter, gov), k)" and
    yr: "yr \<in> set (range_py 2015 2024)" and
    row: "r = trade_row_of u (country_code c) (fst (random_uniform u 40 150 m)) sec ter gov yr
            (noise_position m yr)"
    by blast
  have "round_py (min 105 (sec + real_of_int (yr - 2015) * 0.5)) 2 \<le> real_of_int 105"
    by (rule round_py_le) simp
  moreover have "round_py (ter + real_of_int (yr - 2015) * 0.3) 2 \<le> real_of_int 105"
  proof (rule round_py_le)
    have "real_of_int (yr - 2015) \<le> 8" using range_years_bounds [OF yr] by simp
    then have "real_of_int (yr - 2015) * 0.3 \<le> 8 * 0.3" by (intro mult_right_mono) simp_all
    with trade_bases_tertiary [OF assms(1) b]
    show "ter + real_of_int (yr - 2015) * 0.3 \<le> real_of_int 105" by linarith
  qed
  ultimately show ?thesis by (simp add: row trade_row_of_def)
qed


lemmas trade_eval =
  trade_data_def trade_country_def trade_bases_def trade_year_def range_2015_2024
  random_uniform_def round_py_def round_half_even_def Let_def trade_rows_of_def


theorem enrollment_rates_capped_witness:
  "valid_draws top_draws \<and> trade_data top_draws [usa] 0 = (usa_trade_rows, 22) \<and>
   usa_trade_rows ! 8 \<in> set usa_trade_rows \<and>
   secondary_enrollment_rate (usa_trade_rows ! 8) = 105 \<and>
   tertiary_enrollment_rate (usa_trade_rows ! 8) = 92.4 \<and>
   secondary_enrollment_rate (usa_trade_rows ! 8) \<le> 105 \<and>
   tertiary_enrollment_rate (usa_trade_rows ! 8) \<le> 105"
proof -
  have v: "valid_draws top_draws" by (simp add: valid_draws_def top_draws_def)
  have run: "trade_data top_draws [usa] 0 = (usa_trade_rows, 22)"
    by (simp add: trade_eval usa_def usa_trade_rows_def top_draws_def)
  have r: "usa_trade_rows ! 8 \<in> set usa_trade_rows"
    "secondary_enrollment_rate (usa_trade_rows ! 8) = 105"
    "tertiary_enrollment_rate (usa_trade_rows ! 8) = 92.4"
    by (simp_all add: usa_trade_rows_def trade_rows_of_def)
  from v run r enrollment_rates_capped [OF v run r(1)] show ?thesis by blast
qed



end
